theory Spec2Isabelle
  imports Complex_Main
begin

section \<open>Values shared by the packages\<close>

subsection \<open>Decimals\<close>

text \<open>
  The book and its statistics use \<^verbatim>\<open>decimal.Decimal\<close> of
  github.com/shopspring/decimal (go.mod), an exact decimal fraction. A decimal is
  modelled by the rational number it denotes. \<^verbatim>\<open>Add\<close> is exact;
  \<^verbatim>\<open>Div\<close> is \<^verbatim>\<open>DivRound\<close> at the library's
  \<^verbatim>\<open>DivisionPrecision\<close> of 16 fractional digits, rounding half away from
  zero. The library panics on a zero divisor; the program only ever divides by
  \<^verbatim>\<open>decimal.NewFromInt(2)\<close>.
\<close>

type_synonym decimal = rat

definition DivisionPrecision :: nat where
  "DivisionPrecision = 16"

definition round_half_away :: "rat \<Rightarrow> int" where
  "round_half_away x = (if 0 \<le> x then \<lfloor>x + 1 / 2\<rfloor> else - \<lfloor>- x + 1 / 2\<rfloor>)"

definition NewFromInt :: "int \<Rightarrow> decimal" where
  "NewFromInt n = of_int n"

definition Add :: "decimal \<Rightarrow> decimal \<Rightarrow> decimal" where
  "Add d d2 = d + d2"

definition Div :: "decimal \<Rightarrow> decimal \<Rightarrow> decimal" where
  "Div d d2 =
     of_int (round_half_away (d / d2 * 10 ^ DivisionPrecision)) / 10 ^ DivisionPrecision"

definition IsZero :: "decimal \<Rightarrow> bool" where
  "IsZero d = (d = 0)"

definition GreaterThan :: "decimal \<Rightarrow> decimal \<Rightarrow> bool" where
  "GreaterThan d d2 = (d2 < d)"

definition LessThan :: "decimal \<Rightarrow> decimal \<Rightarrow> bool" where
  "LessThan d d2 = (d < d2)"

text \<open>
  \<^verbatim>\<open>d.StringFixed(n)\<close> renders a decimal with \<open>n\<close> fractional digits. The
  rendering is kept symbolic: the decimal and the number of digits.
\<close>

datatype fixed = StringFixed decimal nat

subsection \<open>Binary floats\<close>

text \<open>
  A \<^verbatim>\<open>float64\<close> is a finite value, an infinity or a NaN. No arithmetic is done on
  floats here; the conversion \<^verbatim>\<open>Decimal.InexactFloat64\<close> is a parameter
  of the functions that call it.
\<close>

datatype float64 = Finite rat | PosInf | NegInf | NaN

subsection \<open>Errors, log lines, time\<close>

datatype error =
    Err string
  | Errorf string error
  | StatusError int string

datatype logarg = S string | N nat | D nat | E error

text \<open>A call \<^verbatim>\<open>log.Printf(format, args...)\<close> is the pair of its format and arguments.\<close>

type_synonym logline = "string \<times> logarg list"

text \<open>An instant of \<^verbatim>\<open>time.Time\<close> and a \<^verbatim>\<open>time.Duration\<close>, in nanoseconds.\<close>

type_synonym time = nat

section \<open>The order book as the collector and the printer read it\<close>

text \<open>
  Package \<^verbatim>\<open>types\<close>: the fields of \<^verbatim>\<open>types.Stats\<close> that the
  sources read.
\<close>

record Stats =
  BestBid :: decimal
  BestAsk :: decimal
  Spread :: decimal
  BidLiquidity05Pct :: decimal
  AskLiquidity05Pct :: decimal
  DeltaLiquidity05Pct :: decimal
  BidLiquidity2Pct :: decimal
  AskLiquidity2Pct :: decimal
  DeltaLiquidity2Pct :: decimal
  BidLiquidity10Pct :: decimal
  AskLiquidity10Pct :: decimal
  DeltaLiquidity10Pct :: decimal
  TotalBidsQty :: decimal
  TotalAsksQty :: decimal

text \<open>
  Modelled from the spec: the type \<^verbatim>\<open>orderbook.OrderBook\<close> (package
  internal/orderbook is not among the sources). A side is the list of its price levels
  \<open>(price, quantity)\<close>; the sequencing state is the one of section 3 of the
  specification.
\<close>

type_synonym level = "decimal \<times> decimal"

record OrderBook =
  bids :: "level list"
  asks :: "level list"
  initialized :: bool
  last_update_id :: nat
  needs_reinit :: bool
  last_update_time :: time

definition IsInitialized :: "OrderBook \<Rightarrow> bool" where
  "IsInitialized ob = initialized ob"

definition GetBids :: "OrderBook \<Rightarrow> level list" where
  "GetBids ob = bids ob"

definition GetAsks :: "OrderBook \<Rightarrow> level list" where
  "GetAsks ob = asks ob"

text \<open>
  Modelled from the spec: \<^verbatim>\<open>OrderBook.GetStats\<close> (sections 4.1 and 4.6). The
  best bid is the highest bid price, the best ask the lowest ask price; the spread is
  best ask minus best bid (scenario 6); a band sums \<open>price \<times> quantity\<close> over the levels
  within the percentage of the side's best price; a delta is bid minus ask; totals are
  raw quantities. The specification leaves the best price of an empty side open; the
  model takes the zero decimal.
\<close>

definition best_bid :: "level list \<Rightarrow> decimal" where
  "best_bid ls = (if ls = [] then 0 else Max (set (map fst ls)))"

definition best_ask :: "level list \<Rightarrow> decimal" where
  "best_ask ls = (if ls = [] then 0 else Min (set (map fst ls)))"

definition quote :: "level list \<Rightarrow> decimal" where
  "quote ls = sum_list (map (\<lambda>(p, q). p * q) ls)"

definition bid_sum_within :: "level list \<Rightarrow> decimal \<Rightarrow> decimal \<Rightarrow> decimal" where
  "bid_sum_within ls reference pct =
     quote (filter (\<lambda>(p, q). reference * (1 - pct) \<le> p \<and> p \<le> reference) ls)"

definition ask_sum_within :: "level list \<Rightarrow> decimal \<Rightarrow> decimal \<Rightarrow> decimal" where
  "ask_sum_within ls reference pct =
     quote (filter (\<lambda>(p, q). reference \<le> p \<and> p \<le> reference * (1 + pct)) ls)"

definition total_qty :: "level list \<Rightarrow> decimal" where
  "total_qty ls = sum_list (map snd ls)"

definition GetStats :: "OrderBook \<Rightarrow> Stats" where
  "GetStats ob =
     (let bb = best_bid (bids ob); ba = best_ask (asks ob);
          b05 = bid_sum_within (bids ob) bb (5 / 1000);
          a05 = ask_sum_within (asks ob) ba (5 / 1000);
          b2 = bid_sum_within (bids ob) bb (2 / 100);
          a2 = ask_sum_within (asks ob) ba (2 / 100);
          b10 = bid_sum_within (bids ob) bb (10 / 100);
          a10 = ask_sum_within (asks ob) ba (10 / 100)
      in \<lparr> BestBid = bb, BestAsk = ba, Spread = ba - bb,
           BidLiquidity05Pct = b05, AskLiquidity05Pct = a05, DeltaLiquidity05Pct = b05 - a05,
           BidLiquidity2Pct = b2, AskLiquidity2Pct = a2, DeltaLiquidity2Pct = b2 - a2,
           BidLiquidity10Pct = b10, AskLiquidity10Pct = a10, DeltaLiquidity10Pct = b10 - a10,
           TotalBidsQty = total_qty (bids ob), TotalAsksQty = total_qty (asks ob) \<rparr>)"

text \<open>
  A \<^verbatim>\<open>*orderbook.OrderBook\<close> is an address; the books live in a store. Go's
  pointers never dangle, so the store is total.
\<close>

type_synonym addr = nat
type_synonym store = "addr \<Rightarrow> OrderBook"

section \<open>Package database\<close>

text \<open>
  \<^verbatim>\<open>OrderbookSnapshotAPI\<close>: a \<^verbatim>\<open>*float64\<close> is an optional float,
  \<open>None\<close> for the nil pointer.
\<close>

record OrderbookSnapshotAPI =
  Exchange :: string
  Symbol :: string
  Timestamp :: time
  rBestBid :: "float64 option"
  rBestAsk :: "float64 option"
  rMidPrice :: "float64 option"
  rSpread :: "float64 option"
  rBidLiquidity05Pct :: "float64 option"
  rAskLiquidity05Pct :: "float64 option"
  rBidLiquidity2Pct :: "float64 option"
  rAskLiquidity2Pct :: "float64 option"
  rBidLiquidity10Pct :: "float64 option"
  rAskLiquidity10Pct :: "float64 option"
  rTotalBidsQty :: "float64 option"
  rTotalAsksQty :: "float64 option"

text \<open>
  \<^verbatim>\<open>encoding/json\<close>: the values \<^verbatim>\<open>json.Marshal\<close> produces for these
  types. A float that is not finite is an unsupported value, the one way marshalling
  a snapshot fails that the model keeps; a nil pointer is \<^verbatim>\<open>null\<close>; a struct is
  an object with its tagged fields in declaration order; a slice is an array.
\<close>

datatype json =
    JNull
  | JString string
  | JNumber float64
  | JTime time
  | JArray "json list"
  | JObject "(string \<times> json) list"

fun marshal_float :: "float64 \<Rightarrow> error + json" where
  "marshal_float (Finite x) = Inr (JNumber (Finite x))"
| "marshal_float f = Inl (Err ''json: unsupported value'')"

fun marshal_ptr :: "float64 option \<Rightarrow> error + json" where
  "marshal_ptr None = Inr JNull"
| "marshal_ptr (Some f) = marshal_float f"

fun marshal_fields :: "(string \<times> (error + json)) list \<Rightarrow> error + (string \<times> json) list" where
  "marshal_fields [] = Inr []"
| "marshal_fields ((k, Inl e) # rest) = Inl e"
| "marshal_fields ((k, Inr v) # rest) =
     (case marshal_fields rest of Inl e \<Rightarrow> Inl e | Inr kvs \<Rightarrow> Inr ((k, v) # kvs))"

definition snapshot_fields :: "OrderbookSnapshotAPI \<Rightarrow> (string \<times> (error + json)) list" where
  "snapshot_fields r =
     [(''exchange'', Inr (JString (Exchange r))),
      (''symbol'', Inr (JString (Symbol r))),
      (''timestamp'', Inr (JTime (Timestamp r))),
      (''best_bid'', marshal_ptr (rBestBid r)),
      (''best_ask'', marshal_ptr (rBestAsk r)),
      (''mid_price'', marshal_ptr (rMidPrice r)),
      (''spread'', marshal_ptr (rSpread r)),
      (''bid_liquidity_05_pct'', marshal_ptr (rBidLiquidity05Pct r)),
      (''ask_liquidity_05_pct'', marshal_ptr (rAskLiquidity05Pct r)),
      (''bid_liquidity_2_pct'', marshal_ptr (rBidLiquidity2Pct r)),
      (''ask_liquidity_2_pct'', marshal_ptr (rAskLiquidity2Pct r)),
      (''bid_liquidity_10_pct'', marshal_ptr (rBidLiquidity10Pct r)),
      (''ask_liquidity_10_pct'', marshal_ptr (rAskLiquidity10Pct r)),
      (''total_bids_qty'', marshal_ptr (rTotalBidsQty r)),
      (''total_asks_qty'', marshal_ptr (rTotalAsksQty r))]"

fun marshal_snapshot :: "OrderbookSnapshotAPI option \<Rightarrow> error + json" where
  "marshal_snapshot None = Inr JNull"
| "marshal_snapshot (Some r) =
     (case marshal_fields (snapshot_fields r) of
        Inl e \<Rightarrow> Inl e
      | Inr kvs \<Rightarrow> Inr (JObject kvs))"

fun marshal_elems :: "OrderbookSnapshotAPI option list \<Rightarrow> error + json list" where
  "marshal_elems [] = Inr []"
| "marshal_elems (x # xs) =
     (case marshal_snapshot x of
        Inl e \<Rightarrow> Inl e
      | Inr j \<Rightarrow> (case marshal_elems xs of Inl e \<Rightarrow> Inl e | Inr js \<Rightarrow> Inr (j # js)))"

definition Marshal :: "OrderbookSnapshotAPI option list \<Rightarrow> error + json" where
  "Marshal snapshots =
     (case marshal_elems snapshots of Inl e \<Rightarrow> Inl e | Inr js \<Rightarrow> Inr (JArray js))"

text \<open>
  \<^verbatim>\<open>net/http\<close>: a request, a response, and the two operations that can fail.
  Whether \<^verbatim>\<open>http.NewRequest\<close> accepts a method and URL, and what
  \<^verbatim>\<open>client.Do\<close> answers, are given by the environment.
\<close>

record Request =
  Method :: string
  URL :: string
  Header :: "(string \<times> string) list"
  Body :: json

record Response =
  StatusCode :: int
  RespBody :: string

record http =
  rejects :: "string \<Rightarrow> string \<Rightarrow> error option"
  Do :: "Request \<Rightarrow> error + Response"

definition NewRequest :: "http \<Rightarrow> string \<Rightarrow> string \<Rightarrow> json \<Rightarrow> error + Request" where
  "NewRequest h m u b =
     (case rejects h m u of
        Some e \<Rightarrow> Inl e
      | None \<Rightarrow> Inr \<lparr> Method = m, URL = u, Header = [], Body = b \<rparr>)"

definition Header_Set :: "string \<Rightarrow> string \<Rightarrow> Request \<Rightarrow> Request" where
  "Header_Set k v req = req \<lparr> Header := filter (\<lambda>(k', _). k' \<noteq> k) (Header req) @ [(k, v)] \<rparr>"

record SupabaseAPIClient =
  baseURL :: string
  apiKey :: string
  Timeout :: time

definition NewSupabaseAPIClient :: "string \<Rightarrow> string \<Rightarrow> SupabaseAPIClient" where
  "NewSupabaseAPIClient url key =
     \<lparr> baseURL = url, apiKey = key, Timeout = 30 * 1000000000 \<rparr>"

text \<open>
  \<^verbatim>\<open>InsertOrderbookSnapshotsBatch\<close> returns its error (\<open>None\<close> for nil) and,
  as the record of its effect, the requests it handed to \<^verbatim>\<open>client.Do\<close>.
\<close>

definition InsertOrderbookSnapshotsBatch ::
  "http \<Rightarrow> SupabaseAPIClient \<Rightarrow> OrderbookSnapshotAPI option list \<Rightarrow> error option \<times> Request list"
where
  "InsertOrderbookSnapshotsBatch h c snapshots =
     (if length snapshots = 0 then (None, [])
      else case Marshal snapshots of
        Inl err \<Rightarrow> (Some (Errorf ''failed to marshal snapshots: %w'' err), [])
      | Inr jsonData \<Rightarrow>
          (let url = baseURL c @ ''/rest/v1/orderbook_snapshots'' in
           case NewRequest h ''POST'' url jsonData of
             Inl err \<Rightarrow> (Some (Errorf ''failed to create request: %w'' err), [])
           | Inr req0 \<Rightarrow>
               (let req = Header_Set ''Prefer'' ''return=minimal''
                           (Header_Set ''Authorization'' (''Bearer '' @ apiKey c)
                           (Header_Set ''apikey'' (apiKey c)
                           (Header_Set ''Content-Type'' ''application/json'' req0)))
                in case Do h req of
                     Inl err \<Rightarrow> (Some (Errorf ''failed to execute request: %w'' err), [req])
                   | Inr resp \<Rightarrow>
                       if StatusCode resp < 200 \<or> StatusCode resp \<ge> 300
                       then (Some (StatusError (StatusCode resp) (RespBody resp)), [req])
                       else (None, [req]))))"

definition TestConnection :: "http \<Rightarrow> SupabaseAPIClient \<Rightarrow> error option" where
  "TestConnection h c =
     (let url = baseURL c @ ''/rest/v1/orderbook_snapshots?select=id&limit=1'' in
      case NewRequest h ''GET'' url JNull of
        Inl err \<Rightarrow> Some (Errorf ''failed to create request: %w'' err)
      | Inr req0 \<Rightarrow>
          (let req = Header_Set ''Authorization'' (''Bearer '' @ apiKey c)
                      (Header_Set ''apikey'' (apiKey c) req0)
           in case Do h req of
                Inl err \<Rightarrow> Some (Errorf ''failed to execute request: %w'' err)
              | Inr resp \<Rightarrow>
                  if StatusCode resp < 200 \<or> StatusCode resp \<ge> 300
                  then Some (StatusError (StatusCode resp) (RespBody resp))
                  else None))"

section \<open>Package collector\<close>

text \<open>
  The registry \<^verbatim>\<open>orderbooks\<close> is a Go map from the exchange name to the book's
  address. The \<^verbatim>\<open>dbClient\<close> is an interface value: what its
  \<^verbatim>\<open>InsertOrderbookSnapshotsBatch\<close> answers is given per tick.
\<close>

record Collector =
  orderbooks :: "string \<rightharpoonup> addr"
  symbol :: string
  interval :: time
  enabled :: bool

definition NewCollector :: "string \<Rightarrow> time \<Rightarrow> Collector" where
  "NewCollector sy iv =
     \<lparr> orderbooks = Map.empty, symbol = sy, interval = iv, enabled = True \<rparr>"

definition RegisterOrderbook :: "string \<Rightarrow> addr \<Rightarrow> Collector \<Rightarrow> Collector \<times> logline list" where
  "RegisterOrderbook exchange ob c =
     (c \<lparr> orderbooks := (orderbooks c)(exchange \<mapsto> ob) \<rparr>,
      [(''[Collector] Registered orderbook for exchange: %s'', [S exchange])])"

definition UnregisterOrderbook :: "string \<Rightarrow> Collector \<Rightarrow> Collector \<times> logline list" where
  "UnregisterOrderbook exchange c =
     (c \<lparr> orderbooks := (orderbooks c)(exchange := None) \<rparr>,
      [(''[Collector] Unregistered orderbook for exchange: %s'', [S exchange])])"

definition SetEnabled :: "bool \<Rightarrow> Collector \<Rightarrow> Collector \<times> logline list" where
  "SetEnabled b c =
     (c \<lparr> enabled := b \<rparr>,
      [(''[Collector] Data collection %s'', [S (if b then ''enabled'' else ''disabled'')])])"

text \<open>
  What one tick reads from outside the collector. Go leaves the order of
  \<^verbatim>\<open>range\<close> over a map open: for each of the two loops of
  \<^verbatim>\<open>collectAndStore\<close>, the pairs of the map in the order the loop visits
  them are given (\<open>enumerates\<close> says that a list is such a visit of a map); the
  length of a map is the length of its visit. \<open>Now k\<close> is what
  \<^verbatim>\<open>time.Now()\<close> returns when \<open>k\<close> rows have been built.
\<close>

record tick_env =
  InsertBatch :: "OrderbookSnapshotAPI option list \<Rightarrow> error option"
  InexactFloat64 :: "decimal \<Rightarrow> float64"
  Now :: "nat \<Rightarrow> time"
  range_registry :: "(string \<rightharpoonup> addr) \<Rightarrow> (string \<times> addr) list"
  range_copy :: "(string \<rightharpoonup> addr) \<Rightarrow> (string \<times> addr) list"

definition enumerates :: "('k \<times> 'v) list \<Rightarrow> ('k \<rightharpoonup> 'v) \<Rightarrow> bool" where
  "enumerates kvs m = (distinct (map fst kvs) \<and> map_of kvs = m)"

definition convertPriceLevels :: "level list \<Rightarrow> (string \<times> decimal) list list" where
  "convertPriceLevels levels = map (\<lambda>(price, quantity). [(''price'', price), (''quantity'', quantity)]) levels"

definition createSnapshot ::
  "(decimal \<Rightarrow> float64) \<Rightarrow> time \<Rightarrow> Collector \<Rightarrow> string \<Rightarrow> Stats \<Rightarrow> OrderBook
     \<Rightarrow> OrderbookSnapshotAPI \<times> logline list"
where
  "createSnapshot f64 now c exchange stats ob =
     (let midPrice =
            (if \<not> IsZero (BestBid stats) \<and> \<not> IsZero (BestAsk stats)
                \<and> GreaterThan (BestAsk stats) (BestBid stats)
             then Some (f64 (Div (Add (BestBid stats) (BestAsk stats)) (NewFromInt 2)))
             else None);
          bidLevels = convertPriceLevels (GetBids ob);
          askLevels = convertPriceLevels (GetAsks ob)
      in (\<lparr> Exchange = exchange, Symbol = symbol c, Timestamp = now,
            rBestBid = Some (f64 (BestBid stats)),
            rBestAsk = Some (f64 (BestAsk stats)),
            rMidPrice = midPrice,
            rSpread = Some (f64 (Spread stats)),
            rBidLiquidity05Pct = Some (f64 (BidLiquidity05Pct stats)),
            rAskLiquidity05Pct = Some (f64 (AskLiquidity05Pct stats)),
            rBidLiquidity2Pct = Some (f64 (BidLiquidity2Pct stats)),
            rAskLiquidity2Pct = Some (f64 (AskLiquidity2Pct stats)),
            rBidLiquidity10Pct = Some (f64 (BidLiquidity10Pct stats)),
            rAskLiquidity10Pct = Some (f64 (AskLiquidity10Pct stats)),
            rTotalBidsQty = Some (f64 (TotalBidsQty stats)),
            rTotalAsksQty = Some (f64 (TotalAsksQty stats)) \<rparr>,
          [(''[Collector] %s: %d bids, %d asks'',
            [S exchange, N (length bidLevels), N (length askLevels)])]))"

text \<open>
  The state a tick works on: the collector, the books, and what has been written to the
  log and handed to the database client so far.
\<close>

record world =
  collector :: Collector
  books :: store
  logs :: "logline list"
  batches :: "OrderbookSnapshotAPI option list list"

type_synonym rows_acc = "OrderbookSnapshotAPI option list \<times> nat \<times> logline list"

fun collect_rows :: "tick_env \<Rightarrow> Collector \<Rightarrow> store \<Rightarrow> (string \<times> addr) list \<Rightarrow> rows_acc \<Rightarrow> rows_acc" where
  "collect_rows env c st [] acc = acc"
| "collect_rows env c st ((exchange, ob) # rest) (snapshots, successCount, lg) =
     (if \<not> IsInitialized (st ob)
      then collect_rows env c st rest
             (snapshots, successCount,
              lg @ [(''[Collector] Skipping %s - orderbook not initialized'', [S exchange])])
      else
        (let stats = GetStats (st ob);
             (snapshot, l) = createSnapshot (InexactFloat64 env) (Now env (length snapshots))
                               c exchange stats (st ob)
         in collect_rows env c st rest (snapshots @ [Some snapshot], successCount + 1, lg @ l)))"

definition copy_registry :: "(string \<times> addr) list \<Rightarrow> (string \<rightharpoonup> addr)" where
  "copy_registry kvs = fold (\<lambda>(k, v) m. m(k \<mapsto> v)) kvs Map.empty"

definition collectAndStore :: "tick_env \<Rightarrow> world \<Rightarrow> world" where
  "collectAndStore env w =
     (let orderbooks' = copy_registry (range_registry env (orderbooks (collector w))) in
      if length (range_copy env orderbooks') = 0
      then w \<lparr> logs := logs w @ [(''[Collector] No orderbooks registered, skipping collection'', [])] \<rparr>
      else
        (let (snapshots, successCount, lg) =
               collect_rows env (collector w) (books w) (range_copy env orderbooks') ([], 0, [])
         in if length snapshots > 0
            then (case InsertBatch env snapshots of
                    Some err \<Rightarrow>
                      w \<lparr> logs := logs w @ lg @
                             [(''[Collector] Failed to insert batch of %d snapshots: %v'',
                               [N (length snapshots), E err])],
                          batches := batches w @ [snapshots] \<rparr>
                  | None \<Rightarrow>
                      w \<lparr> logs := logs w @ lg @
                             [(''[Collector] Successfully stored %d snapshots'', [N successCount])],
                          batches := batches w @ [snapshots] \<rparr>)
            else w \<lparr> logs := logs w @ lg @ [(''[Collector] No valid snapshots to store'', [])] \<rparr>))"

text \<open>
  \<^verbatim>\<open>Collector.Start\<close>: the loop selects between the context's end and the ticker.
  The list is what the select receives, in order; when it is used up the loop is blocked.
\<close>

datatype loop_event = CtxDone | Tick tick_env

fun Start_loop :: "loop_event list \<Rightarrow> world \<Rightarrow> world" where
  "Start_loop [] w = w"
| "Start_loop (CtxDone # es) w = w \<lparr> logs := logs w @ [(''[Collector] Data collection stopped'', [])] \<rparr>"
| "Start_loop (Tick env # es) w =
     Start_loop es (if enabled (collector w) then collectAndStore env w else w)"

definition Start :: "loop_event list \<Rightarrow> world \<Rightarrow> world" where
  "Start es w =
     Start_loop es
       (w \<lparr> logs := logs w @ [(''[Collector] Starting data collection for %s every %v'',
                               [S (symbol (collector w)), D (interval (collector w))])] \<rparr>)"

section \<open>Package main: the printer and the configuration\<close>

datatype color = colorReset | colorYellow | colorGreen | colorRed | colorMagenta | colorBold

definition getDeltaColor :: "decimal \<Rightarrow> color" where
  "getDeltaColor delta =
     (if GreaterThan delta 0 then colorGreen
      else if LessThan delta 0 then colorRed
      else colorYellow)"

text \<open>
  What \<^verbatim>\<open>printCombinedStats\<close> writes, one value per print statement: the name,
  the header (mid, spread, best bid, best ask), a depth line (band, bids, asks, the
  delta's colour, delta), the totals, and an empty line.
\<close>

datatype out =
    Println
  | PrintName string
  | PrintHeader fixed fixed fixed fixed
  | PrintDepth string fixed fixed color fixed
  | PrintTotal fixed fixed

text \<open>An \<^verbatim>\<open>orderbookWithName\<close> is the pair of its name and its book's address.\<close>

type_synonym orderbookWithName = "string \<times> addr"

fun print_loop :: "store \<Rightarrow> nat \<Rightarrow> nat \<Rightarrow> orderbookWithName list \<Rightarrow> out list" where
  "print_loop st len i [] = []"
| "print_loop st len i ((name, ob) # rest) =
     (if \<not> IsInitialized (st ob) then print_loop st len (i + 1) rest
      else
        (let stats = GetStats (st ob);
             midPrice = Div (Add (BestBid stats) (BestAsk stats)) (NewFromInt 2)
         in [PrintName name,
             PrintHeader (StringFixed midPrice 2) (StringFixed (Spread stats) 4)
               (StringFixed (BestBid stats) 2) (StringFixed (BestAsk stats) 2),
             PrintDepth ''0.5%''
               (StringFixed (BidLiquidity05Pct stats) 2) (StringFixed (AskLiquidity05Pct stats) 2)
               (getDeltaColor (DeltaLiquidity05Pct stats)) (StringFixed (DeltaLiquidity05Pct stats) 2),
             PrintDepth ''2%''
               (StringFixed (BidLiquidity2Pct stats) 2) (StringFixed (AskLiquidity2Pct stats) 2)
               (getDeltaColor (DeltaLiquidity2Pct stats)) (StringFixed (DeltaLiquidity2Pct stats) 2),
             PrintDepth ''10%''
               (StringFixed (BidLiquidity10Pct stats) 2) (StringFixed (AskLiquidity10Pct stats) 2)
               (getDeltaColor (DeltaLiquidity10Pct stats)) (StringFixed (DeltaLiquidity10Pct stats) 2),
             PrintTotal (StringFixed (TotalBidsQty stats) 2) (StringFixed (TotalAsksQty stats) 2)]
            @ (if int i < int len - 1 then [Println] else [])
            @ print_loop st len (i + 1) rest))"

definition printCombinedStats :: "store \<Rightarrow> orderbookWithName list \<Rightarrow> out list" where
  "printCombinedStats st obs =
     (if length obs = 0 then [] else Println # print_loop st (length obs) 0 obs)"

text \<open>The mid prices of the header lines of an output, in order.\<close>

fun printed_mids :: "out list \<Rightarrow> fixed list" where
  "printed_mids [] = []"
| "printed_mids (PrintHeader m sp bb ba # os) = m # printed_mids os"
| "printed_mids (x # os) = printed_mids os"

text \<open>
  The process environment maps a variable to its value when it is set;
  \<^verbatim>\<open>os.Getenv\<close> gives the empty string for an unset variable.
  \<^verbatim>\<open>log.Fatal\<close> writes the line and ends the process with code 1. A function that
  can end the process returns its outcome, the variables it read and the lines it logged.
\<close>

type_synonym environ = "string \<rightharpoonup> string"

definition Getenv :: "environ \<Rightarrow> string \<Rightarrow> string" where
  "Getenv env k = (case env k of None \<Rightarrow> [] | Some v \<Rightarrow> v)"

datatype 'a outcome = Exit int | Return 'a

definition default_url :: string where
  "default_url = ''https://qlcmrsbvdmyflllavyzc.supabase.co''"

definition getSupabaseConfig :: "environ \<Rightarrow> (string \<times> string) outcome \<times> string list \<times> logline list" where
  "getSupabaseConfig env =
     (let baseURL0 = Getenv env ''SUPABASE_URL'';
          apiKey = Getenv env ''SUPABASE_ANON_KEY'';
          reads = [''SUPABASE_URL'', ''SUPABASE_ANON_KEY''];
          baseURL = (if baseURL0 = [] then default_url else baseURL0)
      in if apiKey = []
         then (Exit 1, reads,
               [(''SUPABASE_ANON_KEY environment variable is required. Please set it with your Supabase anonymous key.'', [])])
         else (Return (baseURL, apiKey), reads, [(''Supabase API: %s'', [S baseURL])]))"

text \<open>
  The start of \<^verbatim>\<open>runMultiExchange\<close>, up to the collector: the client and the
  collector when the database is enabled, \<open>None\<close> (the nil collector) when it is not.
\<close>

definition runMultiExchange_init ::
  "http \<Rightarrow> environ \<Rightarrow> string \<Rightarrow> bool \<Rightarrow> time
     \<Rightarrow> (SupabaseAPIClient \<times> Collector) option outcome \<times> string list \<times> logline list"
where
  "runMultiExchange_init h env currentSymbol dbEnabled dbInterval =
     (if dbEnabled then
        (case getSupabaseConfig env of
           (Exit n, reads, lg) \<Rightarrow> (Exit n, reads, lg)
         | (Return (url, key), reads, lg) \<Rightarrow>
             (let dbClient = NewSupabaseAPIClient url key in
              case TestConnection h dbClient of
                Some err \<Rightarrow>
                  (Exit 1, reads, lg @ [(''Supabase API connection test failed: %v'', [E err])])
              | None \<Rightarrow>
                  (Return (Some (dbClient, NewCollector currentSymbol dbInterval)), reads,
                   lg @ [(''Supabase API connection established successfully'', [])])))
      else (Return None, [], []))"

section \<open>Package main: the supervisor and its pipelines\<close>

text \<open>
  \<^verbatim>\<open>runMultiExchange\<close> starts \<^verbatim>\<open>startExchangesForSymbol\<close> in a goroutine;
  that one starts a goroutine per exchange (a pipeline), which starts two more (the
  update loop and the reinitialization check), and a logging goroutine. The goroutines
  are modelled as a transition system: a state holds, for each goroutine, the statement
  it executes next, and the variables they share; a step runs one statement of one
  goroutine. A statement that blocks (\<^verbatim>\<open>wg.Wait\<close>, a receive, a select with no
  ready case) leaves the state as it is. A section under \<^verbatim>\<open>obMutex\<close> or under
  the collector's lock is one step.

  The adapters (packages exchange and factory), the book's methods and package config
  are not among the sources. The calls to them are recorded as events; what a fallible
  call returns and what \<^verbatim>\<open>ex.Updates()\<close> delivers are given with the step.
  \<^verbatim>\<open>config.NewMultiExchange\<close> is taken to keep the list of configurations it is
  given.
\<close>

text \<open>Modelled from the spec: \<^verbatim>\<open>exchange.DepthUpdate\<close> (section 3).\<close>

record DepthUpdate =
  first_id :: nat
  last_id :: nat
  prev_last_id :: nat
  event_time :: time
  u_bids :: "level list"
  u_asks :: "level list"

record ExchangeConfig =
  cfgName :: string
  cfgSymbol :: string

definition buildExchangeConfigs :: "string list \<Rightarrow> string \<Rightarrow> ExchangeConfig list" where
  "buildExchangeConfigs exchangeNames sy =
     map (\<lambda>name. \<lparr> cfgName = name, cfgSymbol = sy \<rparr>) exchangeNames"

text \<open>The statement a pipeline goroutine executes next (lines of the source file).\<close>

datatype ppc =
    PNotStarted
  | PNewExchange              \<comment> \<open>137-150\<close>
  | PConnect                  \<comment> \<open>153-157\<close>
  | PGetSnapshot              \<comment> \<open>160-164\<close>
  | PLoadSnapshot             \<comment> \<open>166-169\<close>
  | PGoUpdates                \<comment> \<open>172-178\<close>
  | PGoReinit                 \<comment> \<open>181-199\<close>
  | PProcessBufferedEvents    \<comment> \<open>201-202\<close>
  | PShare                    \<comment> \<open>205-211\<close>
  | PRegister                 \<comment> \<open>214-216\<close>
  | PSelect                   \<comment> \<open>219-226\<close>
  | PUnregister               \<comment> \<open>229-231\<close>
  | PDelete                   \<comment> \<open>234-236\<close>
  | PClose                    \<comment> \<open>the deferred \<^verbatim>\<open>ex.Close()\<close>\<close>
  | PDone                     \<comment> \<open>the deferred \<^verbatim>\<open>wg.Done()\<close>\<close>
  | PExited

datatype gpc = GNotStarted | GRunning | GExited

datatype spc = SNotStarted | SLoop nat | SGo nat | SGoLogger | SWait | SReturned | SExited

datatype mpc = MStart | MWaitInterrupt | MCloseDone | MWaitExchanges | MReturned

datatype call = CNewExchange | CConnect | CGetSnapshot | CLoadSnapshot

datatype act =
    New
  | Ok call
  | Fail call error
  | GoUpdates
  | GoReinit
  | ProcessBufferedEvents
  | HandleDepthUpdate DepthUpdate
  | UpdatesDone
  | CheckAndReinitialize
  | Append
  | MapStore
  | Register
  | Unregister
  | MapDelete
  | Close
  | WgDone

datatype event =
    Logf string "logarg list"
  | Act nat act
  | WgAdd
  | Go nat
  | WgWait
  | PrintCombinedStats "orderbookWithName list"

record pipeline =
  pc :: ppc
  upd :: gpc
  reinit :: gpc

record sys =
  cfg :: "ExchangeConfig list"
  mainpc :: mpc
  suppc :: spc
  pipes :: "pipeline list"
  logger :: gpc
  wg :: int
  done_closed :: bool
  interrupt :: nat
  exchangesDone :: bool
  orderbooks_slice :: "orderbookWithName list"
  orderbooksMap :: "string \<rightharpoonup> addr"
  dataCollector :: "Collector option"
  trace :: "event list"

definition init_sys :: "ExchangeConfig list \<Rightarrow> Collector option \<Rightarrow> sys" where
  "init_sys configs col =
     \<lparr> cfg = configs, mainpc = MStart, suppc = SNotStarted,
       pipes = replicate (length configs) \<lparr> pc = PNotStarted, upd = GNotStarted, reinit = GNotStarted \<rparr>,
       logger = GNotStarted, wg = 0, done_closed = False, interrupt = 0, exchangesDone = False,
       orderbooks_slice = [], orderbooksMap = Map.empty, dataCollector = col, trace = [] \<rparr>"

definition emit :: "event list \<Rightarrow> sys \<Rightarrow> sys" where
  "emit es s = s \<lparr> trace := trace s @ es \<rparr>"

definition goto :: "nat \<Rightarrow> ppc \<Rightarrow> sys \<Rightarrow> sys" where
  "goto i p s = s \<lparr> pipes := (pipes s)[i := (pipes s ! i) \<lparr> pc := p \<rparr>] \<rparr>"

definition logs_of :: "logline list \<Rightarrow> event list" where
  "logs_of lg = map (\<lambda>(f, args). Logf f args) lg"

text \<open>The case a select takes; it is taken only when it is ready.\<close>

datatype sel = SelTick | SelUpdatesDone | SelDone | SelInterrupt

definition ready :: "nat \<Rightarrow> sel \<Rightarrow> sys \<Rightarrow> bool" where
  "ready i c s =
     (case c of
        SelTick \<Rightarrow> True
      | SelUpdatesDone \<Rightarrow> upd (pipes s ! i) = GExited
      | SelDone \<Rightarrow> done_closed s
      | SelInterrupt \<Rightarrow> interrupt s > 0)"

definition receive :: "sel \<Rightarrow> sys \<Rightarrow> sys" where
  "receive c s = (if c = SelInterrupt then s \<lparr> interrupt := interrupt s - 1 \<rparr> else s)"

text \<open>
  One statement of the pipeline goroutine of the \<open>i\<close>-th exchange. \<open>r\<close> is what
  a fallible call returns (\<open>None\<close> for a nil error), \<open>c\<close> the case of the select at
  lines 219-226. The book \<^verbatim>\<open>ob\<close> of the pipeline has the address \<open>i\<close>.
\<close>

definition pipeline_step :: "nat \<Rightarrow> error option \<Rightarrow> sel \<Rightarrow> sys \<Rightarrow> sys" where
  "pipeline_step i r c s =
     (let name = cfgName (cfg s ! i) in
      case pc (pipes s ! i) of
        PNotStarted \<Rightarrow> s
      | PNewExchange \<Rightarrow>
          (case r of
             Some err \<Rightarrow>
               emit [Logf ''[%s] Starting connection...'' [S name], Act i New,
                     Act i (Fail CNewExchange err),
                     Logf ''[%s] Failed to create exchange: %v'' [S name, E err]]
                 (goto i PDone s)
           | None \<Rightarrow>
               emit [Logf ''[%s] Starting connection...'' [S name], Act i New,
                     Act i (Ok CNewExchange)]
                 (goto i PConnect s))
      | PConnect \<Rightarrow>
          (case r of
             Some err \<Rightarrow>
               emit [Act i (Fail CConnect err), Logf ''[%s] Failed to connect: %v'' [S name, E err]]
                 (goto i PDone s)
           | None \<Rightarrow> emit [Act i (Ok CConnect)] (goto i PGetSnapshot s))
      | PGetSnapshot \<Rightarrow>
          (case r of
             Some err \<Rightarrow>
               emit [Act i (Fail CGetSnapshot err),
                     Logf ''[%s] Failed to get snapshot: %v'' [S name, E err]]
                 (goto i PClose s)
           | None \<Rightarrow> emit [Act i (Ok CGetSnapshot)] (goto i PLoadSnapshot s))
      | PLoadSnapshot \<Rightarrow>
          (case r of
             Some err \<Rightarrow>
               emit [Act i (Fail CLoadSnapshot err),
                     Logf ''[%s] Failed to load snapshot: %v'' [S name, E err]]
                 (goto i PClose s)
           | None \<Rightarrow> emit [Act i (Ok CLoadSnapshot)] (goto i PGoUpdates s))
      | PGoUpdates \<Rightarrow>
          emit [Act i GoUpdates]
            (s \<lparr> pipes := (pipes s)[i := (pipes s ! i) \<lparr> pc := PGoReinit, upd := GRunning \<rparr>] \<rparr>)
      | PGoReinit \<Rightarrow>
          emit [Act i GoReinit]
            (s \<lparr> pipes := (pipes s)[i := (pipes s ! i) \<lparr> pc := PProcessBufferedEvents, reinit := GRunning \<rparr>] \<rparr>)
      | PProcessBufferedEvents \<Rightarrow>
          emit [Act i ProcessBufferedEvents, Logf ''[%s] Orderbook initialized'' [S name]]
            (goto i PShare s)
      | PShare \<Rightarrow>
          emit [Act i Append, Act i MapStore]
            (goto i PRegister
               (s \<lparr> orderbooks_slice := orderbooks_slice s @ [(name, i)],
                    orderbooksMap := (orderbooksMap s)(name \<mapsto> i) \<rparr>))
      | PRegister \<Rightarrow>
          (case dataCollector s of
             None \<Rightarrow> goto i PSelect s
           | Some col \<Rightarrow>
               (let (col', lg) = RegisterOrderbook name i col
                in emit (Act i Register # logs_of lg)
                     (goto i PSelect (s \<lparr> dataCollector := Some col' \<rparr>))))
      | PSelect \<Rightarrow>
          (if c \<noteq> SelTick \<and> ready i c s
           then emit [Logf (if c = SelUpdatesDone then ''[%s] Connection closed''
                            else ''[%s] Shutting down...'') [S name]]
                  (goto i PUnregister (receive c s))
           else s)
      | PUnregister \<Rightarrow>
          (case dataCollector s of
             None \<Rightarrow> goto i PDelete s
           | Some col \<Rightarrow>
               (let (col', lg) = UnregisterOrderbook name col
                in emit (Act i Unregister # logs_of lg)
                     (goto i PDelete (s \<lparr> dataCollector := Some col' \<rparr>))))
      | PDelete \<Rightarrow>
          emit [Act i MapDelete]
            (goto i PClose (s \<lparr> orderbooksMap := (orderbooksMap s)(name := None) \<rparr>))
      | PClose \<Rightarrow> emit [Act i Close] (goto i PDone s)
      | PDone \<Rightarrow> emit [Act i WgDone] (goto i PExited (s \<lparr> wg := wg s - 1 \<rparr>))
      | PExited \<Rightarrow> s)"

text \<open>
  The update goroutine (lines 173-178): \<open>u\<close> is what the range over
  \<^verbatim>\<open>ex.Updates()\<close> receives, \<open>None\<close> when the channel is closed; then the
  deferred \<^verbatim>\<open>close(updatesDone)\<close> runs.
\<close>

definition updates_step :: "nat \<Rightarrow> DepthUpdate option \<Rightarrow> sys \<Rightarrow> sys" where
  "updates_step i u s =
     (if upd (pipes s ! i) = GRunning then
        (case u of
           Some update \<Rightarrow> emit [Act i (HandleDepthUpdate update)] s
         | None \<Rightarrow>
             emit [Act i UpdatesDone]
               (s \<lparr> pipes := (pipes s)[i := (pipes s ! i) \<lparr> upd := GExited \<rparr>] \<rparr>))
      else s)"

text \<open>The reinitialization goroutine (lines 181-199).\<close>

definition reinit_step :: "nat \<Rightarrow> sel \<Rightarrow> sys \<Rightarrow> sys" where
  "reinit_step i c s =
     (if reinit (pipes s ! i) = GRunning \<and> ready i c s then
        (if c = SelTick then emit [Act i CheckAndReinitialize] s
         else (receive c s) \<lparr> pipes := (pipes s)[i := (pipes s ! i) \<lparr> reinit := GExited \<rparr>] \<rparr>)
      else s)"

text \<open>The logging goroutine (lines 241-257); its select has no \<^verbatim>\<open>updatesDone\<close> case.\<close>

definition logger_step :: "sel \<Rightarrow> sys \<Rightarrow> sys" where
  "logger_step c s =
     (if logger s = GRunning \<and> c \<noteq> SelUpdatesDone \<and> ready 0 c s then
        (if c = SelTick then emit [PrintCombinedStats (orderbooks_slice s)] s
         else (receive c s) \<lparr> logger := GExited \<rparr>)
      else s)"

text \<open>
  \<^verbatim>\<open>startExchangesForSymbol\<close> (lines 126-260) and, once it has returned, the
  \<^verbatim>\<open>close(exchangesDone)\<close> of line 112.
\<close>

definition sup_step :: "sys \<Rightarrow> sys" where
  "sup_step s =
     (case suppc s of
        SNotStarted \<Rightarrow> s
      | SLoop k \<Rightarrow>
          (if k < length (cfg s) then emit [WgAdd] (s \<lparr> wg := wg s + 1, suppc := SGo k \<rparr>)
           else s \<lparr> suppc := SGoLogger \<rparr>)
      | SGo k \<Rightarrow> emit [Go k] (goto k PNewExchange (s \<lparr> suppc := SLoop (k + 1) \<rparr>))
      | SGoLogger \<Rightarrow> s \<lparr> logger := GRunning, suppc := SWait \<rparr>
      | SWait \<Rightarrow> (if wg s = 0 then emit [WgWait] (s \<lparr> suppc := SReturned \<rparr>) else s)
      | SReturned \<Rightarrow> s \<lparr> exchangesDone := True, suppc := SExited \<rparr>
      | SExited \<Rightarrow> s)"

text \<open>\<^verbatim>\<open>runMultiExchange\<close> from line 103 on.\<close>

definition main_step :: "sys \<Rightarrow> sys" where
  "main_step s =
     (case mainpc s of
        MStart \<Rightarrow>
          emit [Logf ''Starting exchanges for symbol: %s''
                  [S (case cfg s of [] \<Rightarrow> [] | c # _ \<Rightarrow> cfgSymbol c)]]
            (s \<lparr> suppc := SLoop 0, mainpc := MWaitInterrupt \<rparr>)
      | MWaitInterrupt \<Rightarrow>
          (if interrupt s > 0
           then emit [Logf ''Interrupt received, shutting down...'' []]
                  (s \<lparr> interrupt := interrupt s - 1, mainpc := MCloseDone \<rparr>)
           else s)
      | MCloseDone \<Rightarrow> s \<lparr> done_closed := True, mainpc := MWaitExchanges \<rparr>
      | MWaitExchanges \<Rightarrow>
          (if exchangesDone s
           then emit [Logf ''All exchanges closed. Goodbye!'' []] (s \<lparr> mainpc := MReturned \<rparr>)
           else s)
      | MReturned \<Rightarrow> s)"

text \<open>
  A step of the system: which goroutine runs, with what its statement receives from
  outside; or a signal arrives at the channel \<^verbatim>\<open>interrupt\<close>, whose buffer holds one.
\<close>

datatype choice =
    RunMain
  | RunSup
  | RunPipe nat "error option" sel
  | RunUpd nat "DepthUpdate option"
  | RunReinit nat sel
  | RunLogger sel
  | Signal

definition step :: "choice \<Rightarrow> sys \<Rightarrow> sys" where
  "step ch s =
     (case ch of
        RunMain \<Rightarrow> main_step s
      | RunSup \<Rightarrow> sup_step s
      | RunPipe i r c \<Rightarrow> (if i < length (pipes s) then pipeline_step i r c s else s)
      | RunUpd i u \<Rightarrow> (if i < length (pipes s) then updates_step i u s else s)
      | RunReinit i c \<Rightarrow> (if i < length (pipes s) then reinit_step i c s else s)
      | RunLogger c \<Rightarrow> logger_step c s
      | Signal \<Rightarrow> (if interrupt s < 1 then s \<lparr> interrupt := interrupt s + 1 \<rparr> else s))"

definition run :: "choice list \<Rightarrow> sys \<Rightarrow> sys" where
  "run chs s = fold step chs s"

text \<open>
  In a trace, \<open>precedes a b\<close>: an \<open>a\<close> stands before the first \<open>b\<close>, if there is a
  \<open>b\<close>; \<open>followed_by a b\<close>: a \<open>b\<close> stands after the first \<open>a\<close>, if there is an \<open>a\<close>.
\<close>

definition precedes :: "'a \<Rightarrow> 'a \<Rightarrow> 'a list \<Rightarrow> bool" where
  "precedes a b tr = (if b \<in> set tr then a \<in> set (takeWhile (\<lambda>x. x \<noteq> b) tr) else True)"

definition followed_by :: "'a \<Rightarrow> 'a \<Rightarrow> 'a list \<Rightarrow> bool" where
  "followed_by a b tr = (if a \<in> set tr then b \<in> set (dropWhile (\<lambda>x. x \<noteq> a) tr) else True)"

section \<open>Notions used in the statements\<close>

text \<open>
  The rows a tick builds: the first component of what the loop of
  \<^verbatim>\<open>collectAndStore\<close> accumulates.
\<close>

definition tick_rows :: "tick_env \<Rightarrow> world \<Rightarrow> OrderbookSnapshotAPI option list" where
  "tick_rows env w =
     fst (collect_rows env (collector w) (books w)
            (range_copy env (copy_registry (range_registry env (orderbooks (collector w)))))
            ([], 0, []))"

text \<open>
  The payload of section 6 of the specification: the names of a row's fields, and a JSON
  value that is an object of these fields whose numeric ones are null or a number.
\<close>

definition nullable_float :: "json \<Rightarrow> bool" where
  "nullable_float j = (case j of JNull \<Rightarrow> True | JNumber f \<Rightarrow> True | _ \<Rightarrow> False)"

definition payload_fields :: "string list" where
  "payload_fields =
     [''exchange'', ''symbol'', ''timestamp'', ''best_bid'', ''best_ask'', ''mid_price'', ''spread'',
      ''bid_liquidity_05_pct'', ''ask_liquidity_05_pct'', ''bid_liquidity_2_pct'',
      ''ask_liquidity_2_pct'', ''bid_liquidity_10_pct'', ''ask_liquidity_10_pct'',
      ''total_bids_qty'', ''total_asks_qty'']"

definition is_row_object :: "json \<Rightarrow> bool" where
  "is_row_object j =
     (case j of
        JObject kvs \<Rightarrow> map fst kvs = payload_fields \<and> list_all nullable_float (map snd (drop 3 kvs))
      | _ \<Rightarrow> False)"

text \<open>
  The request \<^verbatim>\<open>InsertOrderbookSnapshotsBatch\<close> builds for a batch, when the
  batch can be marshalled and \<^verbatim>\<open>http.NewRequest\<close> accepts the URL.
\<close>

definition batch_request :: "http \<Rightarrow> SupabaseAPIClient \<Rightarrow> OrderbookSnapshotAPI option list \<Rightarrow> Request option" where
  "batch_request h c snapshots =
     (case Marshal snapshots of
        Inl e \<Rightarrow> None
      | Inr jsonData \<Rightarrow>
          (case NewRequest h ''POST'' (baseURL c @ ''/rest/v1/orderbook_snapshots'') jsonData of
             Inl e \<Rightarrow> None
           | Inr req0 \<Rightarrow>
               Some (Header_Set ''Prefer'' ''return=minimal''
                    (Header_Set ''Authorization'' (''Bearer '' @ apiKey c)
                    (Header_Set ''apikey'' (apiKey c)
                    (Header_Set ''Content-Type'' ''application/json'' req0))))))"

section \<open>Example values\<close>

definition example_book :: OrderBook where
  "example_book =
     \<lparr> bids = [(199 / 2, 2), (99, 1)], asks = [(201 / 2, 3), (101, 1)], initialized = True,
       last_update_id = 100, needs_reinit = False, last_update_time = 0 \<rparr>"

definition crossed_book :: OrderBook where
  "crossed_book =
     \<lparr> bids = [(101, 1)], asks = [(100, 2)], initialized = True,
       last_update_id = 100, needs_reinit = False, last_update_time = 0 \<rparr>"

definition empty_book :: OrderBook where
  "empty_book =
     \<lparr> bids = [], asks = [], initialized = False,
       last_update_id = 0, needs_reinit = False, last_update_time = 0 \<rparr>"

definition example_store :: store where
  "example_store a = (if a = 0 then example_book else if a = 1 then empty_book else crossed_book)"

definition example_collector :: Collector where
  "example_collector =
     fst (RegisterOrderbook ''kraken'' 1 (fst (RegisterOrderbook ''binance'' 0
       (NewCollector ''BTCUSDT'' 20000000000))))"

definition range_in_order :: "string list \<Rightarrow> (string \<rightharpoonup> addr) \<Rightarrow> (string \<times> addr) list" where
  "range_in_order ks m = concat (map (\<lambda>k. case m k of None \<Rightarrow> [] | Some v \<Rightarrow> [(k, v)]) ks)"

definition example_env :: tick_env where
  "example_env =
     \<lparr> InsertBatch = (\<lambda>rows. None), InexactFloat64 = Finite, Now = (\<lambda>k. 1000 + k),
       range_registry = range_in_order [''binance'', ''kraken''],
       range_copy = range_in_order [''kraken'', ''binance''] \<rparr>"

definition failing_env :: tick_env where
  "failing_env = example_env \<lparr> InsertBatch := (\<lambda>rows. Some (Err ''timeout'')) \<rparr>"

definition example_world :: world where
  "example_world = \<lparr> collector = example_collector, books = example_store, logs = [], batches = [] \<rparr>"

definition disabled_world :: world where
  "disabled_world = example_world \<lparr> collector := fst (SetEnabled False example_collector) \<rparr>"

definition example_row :: OrderbookSnapshotAPI where
  "example_row =
     fst (createSnapshot Finite 1000 example_collector ''binance'' (GetStats example_book) example_book)"

definition ok_http :: http where
  "ok_http = \<lparr> rejects = (\<lambda>m u. None), Do = (\<lambda>req. Inr \<lparr> StatusCode = 201, RespBody = [] \<rparr>) \<rparr>"

definition example_client :: SupabaseAPIClient where
  "example_client = NewSupabaseAPIClient default_url ''anon-key''"

definition plain_row :: OrderbookSnapshotAPI where
  "plain_row =
     \<lparr> Exchange = ''binance'', Symbol = ''BTCUSDT'', Timestamp = 1000,
       rBestBid = Some (Finite (199 / 2)), rBestAsk = Some (Finite (201 / 2)),
       rMidPrice = None, rSpread = Some (Finite 1),
       rBidLiquidity05Pct = Some (Finite 298), rAskLiquidity05Pct = Some (Finite 0),
       rBidLiquidity2Pct = Some (Finite 298), rAskLiquidity2Pct = Some (Finite 0),
       rBidLiquidity10Pct = Some (Finite 298), rAskLiquidity10Pct = Some (Finite 0),
       rTotalBidsQty = Some (Finite 3), rTotalAsksQty = Some (Finite 4) \<rparr>"

definition inf_row :: OrderbookSnapshotAPI where
  "inf_row = plain_row \<lparr> rBestBid := Some PosInf \<rparr>"

section \<open>Properties of the decimals and of the statistics\<close>

lemma round_half_away_of_int: "round_half_away (of_int n) = n"
proof -
  have "\<lfloor>rat_of_int n + 1 / 2\<rfloor> = n"
    by (simp add: floor_eq_iff)
  moreover have "\<lfloor>- rat_of_int n + 1 / 2\<rfloor> = - n"
    using floor_eq_iff[of "- rat_of_int n + 1 / 2" "- n"] by simp
  ultimately show ?thesis
    unfolding round_half_away_def by simp
qed

lemma Div_exact:
  assumes "d / d2 * 10 ^ DivisionPrecision = of_int n"
  shows "Div d d2 = d / d2"
proof -
  have "Div d d2 = of_int n / 10 ^ DivisionPrecision"
    unfolding Div_def assms round_half_away_of_int ..
  also have "\<dots> = d / d2"
    using assms[symmetric] by simp
  finally show ?thesis .
qed

lemma stats_example:
  "BestBid (GetStats example_book) = 199 / 2" "BestAsk (GetStats example_book) = 201 / 2"
  by (simp_all add: GetStats_def example_book_def best_bid_def best_ask_def Let_def)

lemma stats_crossed:
  "BestBid (GetStats crossed_book) = 101" "BestAsk (GetStats crossed_book) = 100"
  by (simp_all add: GetStats_def crossed_book_def best_bid_def best_ask_def Let_def)

lemma Div_example: "Div (Add (199 / 2) (201 / 2)) (NewFromInt 2) = 100"
  by code_simp

lemma orderbooks_example:
  "orderbooks example_collector = [''binance'' \<mapsto> 0, ''kraken'' \<mapsto> 1]"
  by (simp add: example_collector_def RegisterOrderbook_def NewCollector_def)

lemma enumerates_example:
  "enumerates (range_registry example_env (orderbooks example_collector)) (orderbooks example_collector)"
  "enumerates (range_copy example_env (orderbooks example_collector)) (orderbooks example_collector)"
  by (auto simp: orderbooks_example example_env_def range_in_order_def enumerates_def fun_eq_iff)

lemma range_copy_example:
  "range_copy example_env (orderbooks example_collector) = [(''kraken'', 1), (''binance'', 0)]"
  by (simp add: orderbooks_example example_env_def range_in_order_def)

lemma enabled_example: "enabled example_collector"
  by (simp add: example_collector_def RegisterOrderbook_def NewCollector_def)

lemma env_example:
  "InexactFloat64 example_env = Finite" "Now example_env k = 1000 + k"
  "InexactFloat64 failing_env = Finite" "Now failing_env k = 1000 + k"
  "range_registry failing_env = range_registry example_env"
  "range_copy failing_env = range_copy example_env"
  by (simp_all add: example_env_def failing_env_def)

lemma world_example:
  "collector example_world = example_collector" "books example_world = example_store"
  "batches example_world = []"
  by (simp_all add: example_world_def)

lemma store_example:
  "IsInitialized (example_store 0)" "\<not> IsInitialized (example_store (Suc 0))"
  "example_store 0 = example_book" "IsInitialized example_book"
  by (simp_all add: example_store_def IsInitialized_def example_book_def empty_book_def)

lemma lookup_example:
  "orderbooks example_collector ''binance'' = Some 0"
  "orderbooks example_collector ''kraken'' = Some (Suc 0)"
  by (simp_all add: orderbooks_example)

section \<open>The persistence row\<close>

text \<open>
  C9. In the row \<^verbatim>\<open>createSnapshot\<close> builds, every numeric field other than the mid
  price is a non-nil pointer, and the mid price is nil exactly when the best bid is zero,
  the best ask is zero, or the best ask is not strictly greater than the best bid.
\<close>

theorem createSnapshot_nullable_fields:
  fixes r :: OrderbookSnapshotAPI
  assumes "r = fst (createSnapshot f64 now c exchange stats ob)"
  shows "rBestBid r \<noteq> None \<and> rBestAsk r \<noteq> None \<and> rSpread r \<noteq> None
       \<and> rBidLiquidity05Pct r \<noteq> None \<and> rAskLiquidity05Pct r \<noteq> None
       \<and> rBidLiquidity2Pct r \<noteq> None \<and> rAskLiquidity2Pct r \<noteq> None
       \<and> rBidLiquidity10Pct r \<noteq> None \<and> rAskLiquidity10Pct r \<noteq> None
       \<and> rTotalBidsQty r \<noteq> None \<and> rTotalAsksQty r \<noteq> None
       \<and> (rMidPrice r = None \<longleftrightarrow>
            (BestBid stats = 0 \<or> BestAsk stats = 0 \<or> \<not> BestBid stats < BestAsk stats))"
  unfolding assms createSnapshot_def
  by (simp add: Let_def IsZero_def GreaterThan_def)

theorem createSnapshot_nullable_fields_witness:
  "rMidPrice example_row = Some (Finite 100) \<and> rBestBid example_row = Some (Finite (199 / 2))
   \<and> rBestAsk example_row = Some (Finite (201 / 2))"
  using createSnapshot_nullable_fields[OF example_row_def]
  by (simp add: example_row_def createSnapshot_def Let_def stats_example IsZero_def GreaterThan_def Div_example)

section \<open>The mid price\<close>

lemma printed_mids_append: "printed_mids (xs @ ys) = printed_mids xs @ printed_mids ys"
  by (induction xs rule: printed_mids.induct) simp_all

lemma print_loop_mids:
  "printed_mids (print_loop st len i obs) =
     map (\<lambda>(name, ob). StringFixed (Div (Add (BestBid (GetStats (st ob))) (BestAsk (GetStats (st ob)))) (NewFromInt 2)) 2)
       (filter (\<lambda>(name, ob). IsInitialized (st ob)) obs)"
  by (induction st len i obs rule: print_loop.induct) (simp_all add: Let_def printed_mids_append)

text \<open>
  C2, as the code has it. For every store and list of books, the header line printed for
  each initialized book carries the mid price
  \<^verbatim>\<open>BestBid.Add(BestAsk).Div(2)\<close> with two fractional digits, whatever the sides
  hold. The row of \<^verbatim>\<open>createSnapshot\<close> carries that quotient, converted to a
  float, when the best bid and the best ask are not zero and the best ask is greater than
  the best bid, and a nil pointer otherwise. The quotient is the exact
  \<open>(best_bid + best_ask) / 2\<close> whenever that has at most 16 fractional digits.
\<close>

theorem mid_price_reported:
  "printed_mids (printCombinedStats st obs) =
     map (\<lambda>(name, ob). StringFixed (Div (BestBid (GetStats (st ob)) + BestAsk (GetStats (st ob))) 2) 2)
       (filter (\<lambda>(name, ob). IsInitialized (st ob)) obs)
   \<and> rMidPrice (fst (createSnapshot f64 now c exchange stats b)) =
       (if BestBid stats \<noteq> 0 \<and> BestAsk stats \<noteq> 0 \<and> BestBid stats < BestAsk stats
        then Some (f64 (Div (BestBid stats + BestAsk stats) 2)) else None)
   \<and> ((BestBid stats + BestAsk stats) / 2 * 10 ^ 16 = of_int n \<longrightarrow>
        Div (BestBid stats + BestAsk stats) 2 = (BestBid stats + BestAsk stats) / 2)"
proof -
  have 1: "printed_mids (printCombinedStats st obs) =
     map (\<lambda>(name, ob). StringFixed (Div (BestBid (GetStats (st ob)) + BestAsk (GetStats (st ob))) 2) 2)
       (filter (\<lambda>(name, ob). IsInitialized (st ob)) obs)"
    by (cases obs) (simp_all add: printCombinedStats_def print_loop_mids Add_def NewFromInt_def)
  have 2: "rMidPrice (fst (createSnapshot f64 now c exchange stats b)) =
       (if BestBid stats \<noteq> 0 \<and> BestAsk stats \<noteq> 0 \<and> BestBid stats < BestAsk stats
        then Some (f64 (Div (BestBid stats + BestAsk stats) 2)) else None)"
    by (simp add: createSnapshot_def Let_def IsZero_def GreaterThan_def Add_def NewFromInt_def)
  have 3: "Div (BestBid stats + BestAsk stats) 2 = (BestBid stats + BestAsk stats) / 2"
    if "(BestBid stats + BestAsk stats) / 2 * 10 ^ 16 = of_int n"
    using Div_exact[of "BestBid stats + BestAsk stats" 2 n] that
    by (simp add: DivisionPrecision_def)
  from 1 2 3 show ?thesis by blast
qed

text \<open>
  The example book (best bid 99.5, best ask 100.5): the printed and the stored mid price
  are 100.
\<close>

theorem mid_price_reported_witness:
  "printed_mids (printCombinedStats example_store [(''binance'', 0), (''kraken'', 1)]) = [StringFixed 100 2]
   \<and> rMidPrice example_row = Some (Finite 100)
   \<and> Div (199 / 2 + 201 / 2) 2 = (199 / 2 + 201 / 2) / 2"
proof -
  have s: "BestBid (GetStats example_book) + BestAsk (GetStats example_book) = 199 / 2 + 201 / 2"
    by (simp add: stats_example)
  have e: "(199 / 2 + 201 / 2) / 2 * 10 ^ 16 = rat_of_int (10 ^ 18)"
    by simp
  have d: "Div (199 / 2 + 201 / 2) 2 = 100"
    using Div_example by (simp add: Add_def NewFromInt_def)
  from mid_price_reported[of example_store "[(''binance'', 0), (''kraken'', 1)]" Finite 1000
      example_collector "''binance''" "GetStats example_book" example_book "10 ^ 18"]
  show ?thesis
    unfolding s example_row_def[symmetric]
    using e d by (simp add: store_example stats_example)
qed

text \<open>
  A crossed book has both sides non-empty (best bid 101, best ask 100), and its row has no
  mid price.
\<close>

theorem mid_price_null_counterexample:
  "bids crossed_book \<noteq> [] \<and> asks crossed_book \<noteq> []
   \<and> BestBid (GetStats crossed_book) = 101 \<and> BestAsk (GetStats crossed_book) = 100
   \<and> rMidPrice (fst (createSnapshot Finite 1000 example_collector ''okx''
                        (GetStats crossed_book) crossed_book)) = None"
  by (simp add: stats_crossed createSnapshot_def Let_def IsZero_def GreaterThan_def)
     (simp add: crossed_book_def)

section \<open>The batch request\<close>

lemma marshal_fields_Inr:
  "marshal_fields fs = Inr kvs \<Longrightarrow> fs = map (\<lambda>(k, v). (k, Inr v)) kvs"
  by (induction fs arbitrary: kvs rule: marshal_fields.induct) (auto split: sum.splits)

lemma marshal_ptr_nullable: "marshal_ptr x = Inr v \<Longrightarrow> nullable_float v"
  by (cases x; cases "the x") (auto simp: nullable_float_def)

lemma marshal_ptr_nullable': "Inr v = marshal_ptr x \<Longrightarrow> nullable_float v"
  using marshal_ptr_nullable[of x v] by simp

lemma marshal_snapshot_shape:
  assumes "marshal_snapshot (Some r) = Inr j"
  shows "is_row_object j"
proof -
  from assms obtain kvs where j: "j = JObject kvs" and m: "marshal_fields (snapshot_fields r) = Inr kvs"
    by (auto split: sum.splits)
  from marshal_fields_Inr[OF m] show ?thesis
    unfolding j is_row_object_def snapshot_fields_def payload_fields_def
    by (auto simp: Cons_eq_map_conv intro: marshal_ptr_nullable)
qed

lemma marshal_elems_nth:
  "marshal_elems xs = Inr js \<Longrightarrow>
     length js = length xs \<and> (\<forall>k<length xs. marshal_snapshot (xs ! k) = Inr (js ! k))"
proof (induction xs arbitrary: js)
  case Nil
  then show ?case by simp
next
  case (Cons x xs)
  then show ?case
    by (auto split: sum.splits simp: nth_Cons split: nat.splits)
qed

lemma Marshal_shape:
  assumes "Marshal xs = Inr body"
  shows "\<exists>js. body = JArray js \<and> length js = length xs
           \<and> (\<forall>k<length xs. case xs ! k of None \<Rightarrow> js ! k = JNull | Some r \<Rightarrow> is_row_object (js ! k))"
proof -
  from assms obtain js where b: "body = JArray js" and e: "marshal_elems xs = Inr js"
    by (auto simp: Marshal_def split: sum.splits)
  have "case xs ! k of None \<Rightarrow> js ! k = JNull | Some r \<Rightarrow> is_row_object (js ! k)" if "k < length xs" for k
  proof (cases "xs ! k")
    case None
    then show ?thesis using marshal_elems_nth[OF e] that by auto
  next
    case (Some r)
    then show ?thesis using marshal_elems_nth[OF e] that marshal_snapshot_shape[of r "js ! k"] by auto
  qed
  then show ?thesis using b marshal_elems_nth[OF e] by auto
qed

lemma Header_Set_Body: "Body (Header_Set k v req) = Body req"
  by (simp add: Header_Set_def)

lemma batch_requests:
  "snd (InsertOrderbookSnapshotsBatch h c snapshots) =
     (if snapshots = [] then [] else case batch_request h c snapshots of None \<Rightarrow> [] | Some req \<Rightarrow> [req])"
  by (auto simp: InsertOrderbookSnapshotsBatch_def batch_request_def Let_def split: sum.splits)

lemma batch_request_Body:
  "batch_request h c snapshots = Some req \<Longrightarrow> Marshal snapshots = Inr (Body req)"
  by (auto simp: batch_request_def NewRequest_def Header_Set_Body split: sum.splits option.splits)

lemma marshal_plain: "\<exists>kvs. marshal_snapshot (Some plain_row) = Inr (JObject kvs)"
  by (simp add: plain_row_def snapshot_fields_def)

lemma batch_request_plain: "\<exists>req. batch_request ok_http example_client [Some plain_row, None] = Some req"
  using marshal_plain
  by (auto simp: batch_request_def Marshal_def NewRequest_def ok_http_def)

text \<open>
  C5. \<^verbatim>\<open>InsertOrderbookSnapshotsBatch\<close> hands at most one request to the HTTP
  client, and the body of that request is one JSON array with an element per snapshot of
  the batch: a row is an object with the fields exchange, symbol, timestamp, best_bid,
  best_ask, mid_price, spread, the six liquidity fields and the two totals, in this order,
  each numeric field null or a number; a nil row is null.
\<close>

theorem batch_is_one_json_array:
  assumes "reqs = snd (InsertOrderbookSnapshotsBatch h c snapshots)"
  shows "length reqs \<le> 1 \<and>
         (\<forall>req \<in> set reqs. \<exists>js. Body req = JArray js \<and> length js = length snapshots \<and>
            (\<forall>k<length snapshots.
               case snapshots ! k of None \<Rightarrow> js ! k = JNull | Some r \<Rightarrow> is_row_object (js ! k)))"
proof -
  have "length reqs \<le> 1"
    unfolding assms batch_requests by (simp split: option.splits)
  moreover have "\<exists>js. Body req = JArray js \<and> length js = length snapshots \<and>
            (\<forall>k<length snapshots.
               case snapshots ! k of None \<Rightarrow> js ! k = JNull | Some r \<Rightarrow> is_row_object (js ! k))"
    if "req \<in> set reqs" for req
  proof -
    from that have "batch_request h c snapshots = Some req"
      unfolding assms batch_requests by (auto split: if_splits option.splits)
    from Marshal_shape[OF batch_request_Body[OF this]] show ?thesis .
  qed
  ultimately show ?thesis by blast
qed

text \<open>A batch of one row and one nil pointer, sent to a server that answers 201.\<close>

theorem batch_is_one_json_array_witness:
  "\<exists>req js. snd (InsertOrderbookSnapshotsBatch ok_http example_client [Some plain_row, None]) = [req]
      \<and> Body req = JArray js \<and> length js = 2 \<and> is_row_object (js ! 0) \<and> js ! 1 = JNull"
proof -
  obtain req where r: "batch_request ok_http example_client [Some plain_row, None] = Some req"
    using batch_request_plain by blast
  have s: "snd (InsertOrderbookSnapshotsBatch ok_http example_client [Some plain_row, None]) = [req]"
    by (simp add: batch_requests r)
  from batch_is_one_json_array[OF refl, of ok_http example_client "[Some plain_row, None]"]
  obtain js where "Body req = JArray js" "length js = 2"
    "\<forall>k<2. case [Some plain_row, None] ! k of None \<Rightarrow> js ! k = JNull | Some r \<Rightarrow> is_row_object (js ! k)"
    unfolding s by auto
  moreover from this(3) have "is_row_object (js ! 0)" "js ! 1 = JNull"
    by (auto dest: spec[of _ 0] spec[of _ 1])
  ultimately show ?thesis using s by blast
qed

text \<open>
  C10, as the code has it. With an empty list the function returns nil and hands no
  request to the client. With a non-empty list it returns an error if and only if the
  snapshots cannot be marshalled, or \<^verbatim>\<open>http.NewRequest\<close> fails, or the request
  that was built cannot be executed, or the status of the response is outside 200-299.
\<close>

theorem batch_error_iff:
  "InsertOrderbookSnapshotsBatch h c [] = (None, []) \<and>
   (snapshots \<noteq> [] \<longrightarrow>
      (fst (InsertOrderbookSnapshotsBatch h c snapshots) \<noteq> None) =
        (isl (Marshal snapshots)
         \<or> (\<exists>jsonData. Marshal snapshots = Inr jsonData
               \<and> isl (NewRequest h ''POST'' (baseURL c @ ''/rest/v1/orderbook_snapshots'') jsonData))
         \<or> (\<exists>req. batch_request h c snapshots = Some req
               \<and> (case Do h req of Inl e \<Rightarrow> True
                    | Inr resp \<Rightarrow> StatusCode resp < 200 \<or> 300 \<le> StatusCode resp))))"
  by (auto simp: InsertOrderbookSnapshotsBatch_def batch_request_def Let_def split: sum.splits)

text \<open>The empty batch, and a batch a server accepts with 201.\<close>

theorem batch_error_iff_witness:
  "InsertOrderbookSnapshotsBatch ok_http example_client [] = (None, [])
   \<and> fst (InsertOrderbookSnapshotsBatch ok_http example_client [Some plain_row, None]) = None"
proof -
  obtain req where r: "batch_request ok_http example_client [Some plain_row, None] = Some req"
    using batch_request_plain by blast
  have m: "\<not> isl (Marshal [Some plain_row, None])"
    using r by (auto simp: batch_request_def split: sum.splits)
  show ?thesis
    using batch_error_iff[of ok_http example_client "[Some plain_row, None]"] r m
    by (auto simp: ok_http_def NewRequest_def)
qed

text \<open>
  A row whose best bid is the float +Inf: the function returns the marshalling error,
  although \<^verbatim>\<open>http.NewRequest\<close> accepts the URL and the server answers 201 to
  whatever it is sent.
\<close>

theorem batch_error_counterexample:
  "InsertOrderbookSnapshotsBatch ok_http example_client [Some inf_row] =
     (Some (Errorf ''failed to marshal snapshots: %w'' (Err ''json: unsupported value'')), [])
   \<and> rejects ok_http ''POST'' (baseURL example_client @ ''/rest/v1/orderbook_snapshots'') = None
   \<and> Do ok_http \<lparr> Method = ''POST'', URL = baseURL example_client @ ''/rest/v1/orderbook_snapshots'',
                   Header = [], Body = JNull \<rparr> = Inr \<lparr> StatusCode = 201, RespBody = [] \<rparr>"
  by (simp add: InsertOrderbookSnapshotsBatch_def Marshal_def inf_row_def plain_row_def
      snapshot_fields_def ok_http_def)

section \<open>The collector's tick\<close>

lemma copy_fold:
  "distinct (map fst kvs) \<Longrightarrow> fold (\<lambda>(k, v) m. m(k \<mapsto> v)) kvs m0 = m0 ++ map_of kvs"
proof (induction kvs arbitrary: m0)
  case Nil
  then show ?case by simp
next
  case (Cons a kvs)
  obtain k v where a: "a = (k, v)" by (cases a)
  from Cons.prems a have notin: "map_of kvs k = None" and d: "distinct (map fst kvs)"
    by (auto simp: map_of_eq_None_iff)
  have "fold (\<lambda>(k, v) m. m(k \<mapsto> v)) (a # kvs) m0 = fold (\<lambda>(k, v) m. m(k \<mapsto> v)) kvs (m0(k \<mapsto> v))"
    by (simp add: a)
  also have "\<dots> = m0(k \<mapsto> v) ++ map_of kvs"
    by (rule Cons.IH[OF d])
  also have "\<dots> = m0 ++ map_of (a # kvs)"
  proof
    fix x show "(m0(k \<mapsto> v) ++ map_of kvs) x = (m0 ++ map_of (a # kvs)) x"
      using notin a by (cases "map_of kvs x") (auto simp: map_add_def)
  qed
  finally show ?case .
qed

lemma copy_registry_enumerates: "enumerates kvs m \<Longrightarrow> copy_registry kvs = m"
  unfolding enumerates_def copy_registry_def by (simp add: copy_fold)

lemma collect_rows_fst:
  "fst (collect_rows env c st kvs (snaps, n, lg)) =
     snaps @ map (\<lambda>(k, (e, a)). Some (fst (createSnapshot (InexactFloat64 env) (Now env (length snaps + k)) c e
                                    (GetStats (st a)) (st a))))
               (enumerate 0 (filter (\<lambda>(e, a). IsInitialized (st a)) kvs))"
proof (induction kvs arbitrary: snaps n lg)
  case Nil
  then show ?case by simp
next
  case (Cons a kvs)
  obtain e ob where a: "a = (e, ob)" by (cases a)
  show ?case
  proof (cases "IsInitialized (st ob)")
    case False
    then show ?thesis using Cons.IH a by simp
  next
    case True
    obtain r l where cs: "createSnapshot (InexactFloat64 env) (Now env (length snaps)) c e
        (GetStats (st ob)) (st ob) = (r, l)"
      by (cases "createSnapshot (InexactFloat64 env) (Now env (length snaps)) c e
        (GetStats (st ob)) (st ob)")
    have step: "collect_rows env c st (a # kvs) (snaps, n, lg) =
        collect_rows env c st kvs (snaps @ [Some r], n + 1, lg @ l)"
      using True a cs by simp
    show ?thesis
      unfolding step Cons.IH
      using True a cs by (auto simp add: enumerate_Suc_eq o_def split_def)
  qed
qed

lemma Exchange_createSnapshot: "Exchange (fst (createSnapshot f t c e stats ob)) = e"
  by (simp add: createSnapshot_def Let_def)

lemma count_key:
  "distinct (map fst kvs) \<Longrightarrow>
     length (filter (\<lambda>(k, a). k = e \<and> Q a) kvs) =
       (case map_of kvs e of None \<Rightarrow> 0 | Some a \<Rightarrow> if Q a then 1 else 0)"
proof (induction kvs)
  case Nil
  then show ?case by simp
next
  case (Cons x kvs)
  obtain k a where x: "x = (k, a)" by (cases x)
  show ?case
  proof (cases "k = e")
    case True
    with Cons.prems x have "map_of kvs e = None"
      by (auto simp: map_of_eq_None_iff)
    with Cons.IH Cons.prems x True show ?thesis by simp
  next
    case False
    with Cons.IH Cons.prems x show ?thesis by simp
  qed
qed

lemma length_rows_exchange:
  "length (filter (\<lambda>r. map_option Exchange r = Some e)
     (map (\<lambda>(k, (e, a)). Some (fst (createSnapshot f (t k) c e (g a) (h a)))) (enumerate n kvs)))
   = length (filter (\<lambda>(k, a). k = e) kvs)"
  by (induction kvs arbitrary: n) (auto simp: Exchange_createSnapshot)

lemma tick_rows_char:
  assumes "enumerates (range_registry env (orderbooks (collector w))) (orderbooks (collector w))"
  shows "tick_rows env w =
     map (\<lambda>(k, (e, a)). Some (fst (createSnapshot (InexactFloat64 env) (Now env k) (collector w) e
                                    (GetStats (books w a)) (books w a))))
       (enumerate 0 (filter (\<lambda>(e, a). IsInitialized (books w a))
                       (range_copy env (orderbooks (collector w)))))"
  unfolding tick_rows_def copy_registry_enumerates[OF assms] collect_rows_fst by simp

lemma batches_collectAndStore:
  "batches (collectAndStore env w) =
     batches w @ (if tick_rows env w = [] then [] else [tick_rows env w])"
  unfolding collectAndStore_def tick_rows_def Let_def
  by (auto split: prod.splits option.splits)

lemma tick_rows_example:
  "tick_rows example_env example_world = [Some example_row]"
  "tick_rows failing_env example_world = [Some example_row]"
proof -
  show "tick_rows example_env example_world = [Some example_row]"
    by (subst tick_rows_char)
       (simp_all add: world_example enumerates_example range_copy_example store_example
          env_example example_row_def)
  show "tick_rows failing_env example_world = [Some example_row]"
    by (subst tick_rows_char)
       (simp_all add: world_example enumerates_example range_copy_example store_example
          env_example example_row_def)
qed

text \<open>
  C3, as the code has it. On a tick at which the collector is enabled, and for any order in
  which the two loops visit the registry: the rows built are the rows
  \<^verbatim>\<open>createSnapshot\<close> makes of the statistics of the registered books that are
  initialized, in the order visited; so there is exactly one row for each registered book
  that is initialized and none for any other name; and the rows are handed to the database
  client in one call, or in none when no row was built.
\<close>

theorem tick_builds_and_ships:
  assumes en: "enabled (collector w)"
    and r1: "enumerates (range_registry env (orderbooks (collector w))) (orderbooks (collector w))"
    and r2: "enumerates (range_copy env (orderbooks (collector w))) (orderbooks (collector w))"
  shows "tick_rows env w =
           map (\<lambda>(k, (e, a)). Some (fst (createSnapshot (InexactFloat64 env) (Now env k) (collector w) e
                                    (GetStats (books w a)) (books w a))))
             (enumerate 0 (filter (\<lambda>(e, a). IsInitialized (books w a))
                             (range_copy env (orderbooks (collector w)))))
       \<and> (\<forall>e. length (filter (\<lambda>r. map_option Exchange r = Some e) (tick_rows env w)) =
               (case orderbooks (collector w) e of
                  None \<Rightarrow> 0
                | Some a \<Rightarrow> if IsInitialized (books w a) then 1 else 0))
       \<and> batches (Start_loop [Tick env] w) =
           batches w @ (if tick_rows env w = [] then [] else [tick_rows env w])"
proof -
  let ?kvs = "range_copy env (orderbooks (collector w))"
  have d: "distinct (map fst ?kvs)" and m: "map_of ?kvs = orderbooks (collector w)"
    using r2 by (simp_all add: enumerates_def)
  have cnt: "length (filter (\<lambda>r. map_option Exchange r = Some e) (tick_rows env w)) =
               (case orderbooks (collector w) e of
                  None \<Rightarrow> 0
                | Some a \<Rightarrow> if IsInitialized (books w a) then 1 else 0)" for e
  proof -
    have "length (filter (\<lambda>r. map_option Exchange r = Some e) (tick_rows env w)) =
          length (filter (\<lambda>(k, a). k = e) (filter (\<lambda>(e, a). IsInitialized (books w a)) ?kvs))"
      unfolding tick_rows_char[OF r1] by (rule length_rows_exchange)
    also have "\<dots> = length (filter (\<lambda>(k, a). k = e \<and> IsInitialized (books w a)) ?kvs)"
      by (simp add: split_def conj_commute)
    also have "\<dots> = (case map_of ?kvs e of None \<Rightarrow> 0
                      | Some a \<Rightarrow> if IsInitialized (books w a) then 1 else 0)"
      by (rule count_key[OF d])
    finally show ?thesis unfolding m .
  qed
  show ?thesis
    using tick_rows_char[OF r1] cnt en by (simp add: batches_collectAndStore)
qed

text \<open>
  Two registered books, binance initialized and kraken not: one row, for binance, in one
  batch.
\<close>

theorem tick_builds_and_ships_witness:
  "length (filter (\<lambda>r. map_option Exchange r = Some ''binance'') (tick_rows example_env example_world)) = 1
   \<and> length (filter (\<lambda>r. map_option Exchange r = Some ''kraken'') (tick_rows example_env example_world)) = 0
   \<and> batches (Start_loop [Tick example_env] example_world) = [[Some example_row]]"
proof -
  have h: "enabled (collector example_world)"
    "enumerates (range_registry example_env (orderbooks (collector example_world)))
       (orderbooks (collector example_world))"
    "enumerates (range_copy example_env (orderbooks (collector example_world)))
       (orderbooks (collector example_world))"
    using enabled_example enumerates_example by (simp_all add: world_example)
  from tick_builds_and_ships[OF h]
  have c: "\<And>e. length (filter (\<lambda>r. map_option Exchange r = Some e) (tick_rows example_env example_world)) =
               (case orderbooks (collector example_world) e of
                  None \<Rightarrow> 0
                | Some a \<Rightarrow> if IsInitialized (books example_world a) then 1 else 0)"
    and b: "batches (Start_loop [Tick example_env] example_world) =
           batches example_world @ (if tick_rows example_env example_world = [] then []
                                    else [tick_rows example_env example_world])"
    by blast+
  show ?thesis
    using c[of "''binance''"] c[of "''kraken''"] b
    by (simp add: world_example lookup_example store_example tick_rows_example)
qed

text \<open>
  After \<^verbatim>\<open>SetEnabled(false)\<close> a tick builds and ships nothing, although binance is
  registered and initialized.
\<close>

theorem tick_disabled_counterexample:
  "orderbooks (collector disabled_world) ''binance'' = Some 0
   \<and> IsInitialized (books disabled_world 0)
   \<and> batches disabled_world = []
   \<and> batches (Start_loop [Tick example_env] disabled_world) = []"
  by (simp add: disabled_world_def example_world_def SetEnabled_def orderbooks_example
      example_store_def IsInitialized_def example_book_def)

text \<open>
  C4. When the database client answers a batch with an error, the tick logs the failure
  with the error as its last line and has made that one call; the collector (its registry
  included) and the books are as before; and whatever the books are at the next tick, that
  tick hands over exactly the rows built from the registry and the books as they are then:
  nothing of the failed batch is kept or sent again.
\<close>

theorem failed_batch_is_dropped:
  assumes rows: "tick_rows env w \<noteq> []"
    and fails: "InsertBatch env (tick_rows env w) = Some err"
    and w': "w' = collectAndStore env w"
  shows "collector w' = collector w \<and> books w' = books w
       \<and> batches w' = batches w @ [tick_rows env w]
       \<and> last (logs w') = (''[Collector] Failed to insert batch of %d snapshots: %v'',
                           [N (length (tick_rows env w)), E err])
       \<and> (\<forall>env' st'. batches (collectAndStore env' (w' \<lparr> books := st' \<rparr>)) =
             batches w' @ (if tick_rows env' (w \<lparr> books := st' \<rparr>) = [] then []
                           else [tick_rows env' (w \<lparr> books := st' \<rparr>)]))"
proof -
  have ne: "length (range_copy env (copy_registry (range_registry env (orderbooks (collector w))))) \<noteq> 0"
    using rows unfolding tick_rows_def by (auto)
  have 1: "collector w' = collector w \<and> books w' = books w"
    unfolding w' collectAndStore_def Let_def
    by (auto split: prod.splits option.splits)
  have 2: "last (logs w') = (''[Collector] Failed to insert batch of %d snapshots: %v'',
                           [N (length (tick_rows env w)), E err])"
    using rows fails ne unfolding w' collectAndStore_def tick_rows_def Let_def
    by (auto split: prod.splits option.splits)
  have 3: "tick_rows env' (w' \<lparr> books := st' \<rparr>) = tick_rows env' (w \<lparr> books := st' \<rparr>)" for env' st'
    using 1 by (simp add: tick_rows_def)
  show ?thesis
    using 1 2 3 rows by (simp add: batches_collectAndStore w'[symmetric]) (simp add: w' batches_collectAndStore)
qed

text \<open>The example tick with a client that answers every batch with a timeout.\<close>

theorem failed_batch_is_dropped_witness:
  "collector (collectAndStore failing_env example_world) = collector example_world
   \<and> books (collectAndStore failing_env example_world) = books example_world
   \<and> batches (collectAndStore failing_env example_world) = [[Some example_row]]
   \<and> last (logs (collectAndStore failing_env example_world)) =
       (''[Collector] Failed to insert batch of %d snapshots: %v'', [N 1, E (Err ''timeout'')])"
proof -
  have r: "tick_rows failing_env example_world \<noteq> []"
    by (simp add: tick_rows_example)
  have f: "InsertBatch failing_env (tick_rows failing_env example_world) = Some (Err ''timeout'')"
    by (simp add: failing_env_def)
  from failed_batch_is_dropped[OF r f refl] show ?thesis
    by (simp add: tick_rows_example world_example)
qed

section \<open>The configuration\<close>

lemma getSupabaseConfig_unset_key:
  "env ''SUPABASE_ANON_KEY'' = None \<Longrightarrow> fst (getSupabaseConfig env) = Exit 1"
  by (simp add: getSupabaseConfig_def Getenv_def Let_def)

lemma getSupabaseConfig_unset_url:
  "env ''SUPABASE_URL'' = None \<Longrightarrow>
     fst (getSupabaseConfig env) =
       (if Getenv env ''SUPABASE_ANON_KEY'' = [] then Exit 1
        else Return (default_url, Getenv env ''SUPABASE_ANON_KEY''))"
  by (simp add: getSupabaseConfig_def Getenv_def Let_def)

lemma init_exit:
  "fst (getSupabaseConfig env) = Exit n \<Longrightarrow> fst (runMultiExchange_init h env sy True iv) = Exit n"
  by (cases "getSupabaseConfig env") (simp add: runMultiExchange_init_def)

lemma init_client:
  assumes "fst (runMultiExchange_init h env sy True iv) = Return (Some (cl, col))"
  shows "\<exists>url key. fst (getSupabaseConfig env) = Return (url, key) \<and> cl = NewSupabaseAPIClient url key"
proof (cases "getSupabaseConfig env")
  case (fields out rd lg)
  show ?thesis
  proof (cases out)
    case (Exit n)
    with fields assms show ?thesis by (simp add: runMultiExchange_init_def)
  next
    case (Return p)
    obtain url key where p: "p = (url, key)" by (cases p)
    from fields Return p assms show ?thesis
      by (simp add: runMultiExchange_init_def Let_def split: option.splits)
  qed
qed

text \<open>
  C6. With the database enabled and SUPABASE_ANON_KEY unset, the start ends the process
  with code 1. With the database enabled and SUPABASE_URL unset,
  \<^verbatim>\<open>getSupabaseConfig\<close> ends the process when the key is missing and otherwise returns
  the default URL, and the client the start builds has the default URL as its base. With
  the database disabled the start reads no variable and has no collector.
\<close>

theorem supabase_configuration:
  "(dbEnabled \<and> env ''SUPABASE_ANON_KEY'' = None \<longrightarrow>
      fst (runMultiExchange_init h env sy dbEnabled iv) = Exit 1)
   \<and> (dbEnabled \<and> env ''SUPABASE_URL'' = None \<longrightarrow>
        fst (getSupabaseConfig env) =
          (if Getenv env ''SUPABASE_ANON_KEY'' = [] then Exit 1
           else Return (default_url, Getenv env ''SUPABASE_ANON_KEY''))
        \<and> (\<forall>cl col. fst (runMultiExchange_init h env sy dbEnabled iv) = Return (Some (cl, col))
              \<longrightarrow> baseURL cl = default_url))
   \<and> (\<not> dbEnabled \<longrightarrow> runMultiExchange_init h env sy dbEnabled iv = (Return None, [], []))"
proof (intro conjI impI allI)
  assume "dbEnabled \<and> env ''SUPABASE_ANON_KEY'' = None"
  then show "fst (runMultiExchange_init h env sy dbEnabled iv) = Exit 1"
    using init_exit[OF getSupabaseConfig_unset_key] by simp
next
  assume "dbEnabled \<and> env ''SUPABASE_URL'' = None"
  then show "fst (getSupabaseConfig env) =
          (if Getenv env ''SUPABASE_ANON_KEY'' = [] then Exit 1
           else Return (default_url, Getenv env ''SUPABASE_ANON_KEY''))"
    using getSupabaseConfig_unset_url by simp
next
  fix cl col
  assume a: "dbEnabled \<and> env ''SUPABASE_URL'' = None"
    and r: "fst (runMultiExchange_init h env sy dbEnabled iv) = Return (Some (cl, col))"
  from a r init_client[of h env sy iv cl col] obtain url key
    where u: "fst (getSupabaseConfig env) = Return (url, key)" and c: "cl = NewSupabaseAPIClient url key"
    by auto
  from u getSupabaseConfig_unset_url[of env] a have "url = default_url"
    by (simp split: if_splits)
  with c show "baseURL cl = default_url"
    by (simp add: NewSupabaseAPIClient_def)
next
  assume "\<not> dbEnabled"
  then show "runMultiExchange_init h env sy dbEnabled iv = (Return None, [], [])"
    by (simp add: runMultiExchange_init_def)
qed

text \<open>No variable set; only the key set; the database disabled.\<close>

theorem supabase_configuration_witness:
  "fst (runMultiExchange_init ok_http Map.empty ''BTCUSDT'' True 20000000000) = Exit 1
   \<and> fst (getSupabaseConfig [''SUPABASE_ANON_KEY'' \<mapsto> ''anon-key'']) = Return (default_url, ''anon-key'')
   \<and> baseURL example_client = default_url
   \<and> fst (runMultiExchange_init ok_http [''SUPABASE_ANON_KEY'' \<mapsto> ''anon-key''] ''BTCUSDT'' True 20000000000)
       = Return (Some (example_client, NewCollector ''BTCUSDT'' 20000000000))
   \<and> runMultiExchange_init ok_http Map.empty ''BTCUSDT'' False 20000000000 = (Return None, [], [])"
proof -
  have t: "TestConnection ok_http example_client = None"
    by (simp add: TestConnection_def NewRequest_def ok_http_def Let_def)
  have g: "getSupabaseConfig [''SUPABASE_ANON_KEY'' \<mapsto> ''anon-key''] =
      (Return (default_url, ''anon-key''), [''SUPABASE_URL'', ''SUPABASE_ANON_KEY''],
       [(''Supabase API: %s'', [S default_url])])"
    by (simp add: getSupabaseConfig_def Getenv_def Let_def)
  have r: "fst (runMultiExchange_init ok_http [''SUPABASE_ANON_KEY'' \<mapsto> ''anon-key''] ''BTCUSDT'' True 20000000000)
       = Return (Some (example_client, NewCollector ''BTCUSDT'' 20000000000))"
    using t by (simp add: runMultiExchange_init_def g example_client_def[symmetric])
  have k: "Getenv [''SUPABASE_ANON_KEY'' \<mapsto> ''anon-key''] ''SUPABASE_ANON_KEY'' = ''anon-key''"
    by (simp add: Getenv_def)
  have 1: "fst (runMultiExchange_init ok_http Map.empty ''BTCUSDT'' True 20000000000) = Exit 1"
    using supabase_configuration[of True Map.empty ok_http "''BTCUSDT''" 20000000000] by simp
  have 2: "fst (getSupabaseConfig [''SUPABASE_ANON_KEY'' \<mapsto> ''anon-key'']) = Return (default_url, ''anon-key'')
     \<and> baseURL example_client = default_url"
    using supabase_configuration[of True "[''SUPABASE_ANON_KEY'' \<mapsto> ''anon-key'']" ok_http "''BTCUSDT''" 20000000000]
      r k by simp
  have 3: "runMultiExchange_init ok_http Map.empty ''BTCUSDT'' False 20000000000 = (Return None, [], [])"
    using supabase_configuration[of False Map.empty ok_http "''BTCUSDT''" 20000000000] by simp
  from 1 2 3 r show ?thesis by simp
qed

end
